theory Spec2Isabelle
  imports Complex_Main
begin

text \<open>
  A model of the two components of the species application: \<open>AnimalSpeedGraph\<close>
  (the loader of the animal-speed table and the renderer of its bar chart) and
  \<open>SpeciesCard\<close> (the edit dialog of a species). The definitions come first, each
  after the piece of the source it renders; the facts about them follow, grouped by
  component.
\<close>

section \<open>JavaScript values used by the chart component\<close>

text \<open>
  A JavaScript number is modelled as an exact real or one of the three special values;
  IEEE rounding is not modelled. A value of type \<open>string | undefined\<close> is a
  \<open>string option\<close>, and a row of \<open>d3.csv\<close> (a \<open>DSVRowString\<close>, an object from
  column names to strings) is a map from column names to strings.
\<close>

datatype jsnum = NaN | NegInfinity | PosInfinity | Num real

type_synonym row = "string \<rightharpoonup> string"

text \<open>Truthiness of a \<open>string | undefined\<close>: defined and not the empty string.\<close>

definition truthy :: "string option \<Rightarrow> bool" where
  "truthy v = (case v of None \<Rightarrow> False | Some s \<Rightarrow> s \<noteq> [])"

subsection \<open>The builtin \<open>parseFloat\<close>\<close>

text \<open>
  ECMAScript \<open>parseFloat\<close>: leading white space is skipped, then the longest prefix
  that is a \<open>StrDecimalLiteral\<close> (sign, \<open>Infinity\<close> or digits with an optional
  fraction and exponent) is read; without such a prefix the result is \<open>NaN\<close>.
  Strings are byte strings, so only the ASCII white space characters are recognised.
\<close>

definition isWhiteSpace :: "char \<Rightarrow> bool" where
  "isWhiteSpace c = ((of_char c :: nat) \<in> {9, 10, 11, 12, 13, 32})"

definition isDigit :: "char \<Rightarrow> bool" where
  "isDigit c = (48 \<le> (of_char c :: nat) \<and> (of_char c :: nat) \<le> 57)"

definition digitsVal :: "string \<Rightarrow> nat" where
  "digitsVal ds = foldl (\<lambda>a c. 10 * a + ((of_char c :: nat) - 48)) 0 ds"

definition signedInteger :: "string \<Rightarrow> int option" where
  "signedInteger s =
     (let (neg, ds) =
            (case s of
               [] \<Rightarrow> (False, [])
             | c # t \<Rightarrow> if c = CHR ''-'' then (True, t)
                        else if c = CHR ''+'' then (False, t) else (False, s))
      in if takeWhile isDigit ds = [] then None
         else Some (if neg then - int (digitsVal (takeWhile isDigit ds))
                    else int (digitsVal (takeWhile isDigit ds))))"

definition exponentPart :: "string \<Rightarrow> int" where
  "exponentPart s =
     (case s of
        [] \<Rightarrow> 0
      | c # t \<Rightarrow> if c = CHR ''e'' \<or> c = CHR ''E''
                 then (case signedInteger t of None \<Rightarrow> 0 | Some k \<Rightarrow> k)
                 else 0)"

definition scale10 :: "real \<Rightarrow> int \<Rightarrow> real" where
  "scale10 m k = (if 0 \<le> k then m * 10 ^ nat k else m / 10 ^ nat (- k))"

definition strUnsignedDecimalLiteral :: "string \<Rightarrow> real option" where
  "strUnsignedDecimalLiteral s =
     (let ip = takeWhile isDigit s; r1 = dropWhile isDigit s in
      case r1 of
        [] \<Rightarrow> if ip = [] then None else Some (real (digitsVal ip))
      | c # r2 \<Rightarrow>
          if c = CHR ''.'' then
            (let fp = takeWhile isDigit r2; r3 = dropWhile isDigit r2 in
             if ip = [] \<and> fp = [] then None
             else Some (scale10 (real (digitsVal ip) + real (digitsVal fp) / 10 ^ length fp)
                          (exponentPart r3)))
          else if ip = [] then None
          else Some (scale10 (real (digitsVal ip)) (exponentPart r1)))"

definition parseFloat :: "string \<Rightarrow> jsnum" where
  "parseFloat inputString =
     (let trimmed = dropWhile isWhiteSpace inputString;
          (neg, body) =
            (case trimmed of
               [] \<Rightarrow> (False, [])
             | c # t \<Rightarrow> if c = CHR ''-'' then (True, t)
                        else if c = CHR ''+'' then (False, t) else (False, trimmed))
      in if take 8 body = ''Infinity'' then (if neg then NegInfinity else PosInfinity)
         else (case strUnsignedDecimalLiteral body of
                 None \<Rightarrow> NaN
               | Some v \<Rightarrow> Num (if neg then - v else v)))"

section \<open>The data loader (\<open>AnimalSpeedGraph\<close>, first effect)\<close>

text \<open>
  \<^verbatim>\<open>interface AnimalDatum { name: string; diet: ...; speed: number }\<close>.
  The cast of \<open>row.Diet\<close> to the three-valued union is erased at run time, so
  \<open>diet\<close> is whatever string the row holds.
\<close>

record AnimalDatum =
  name :: string
  diet :: string
  speed :: jsnum

definition animalKey :: string where "animalKey = ''Animal''"
definition dietKey :: string where "dietKey = ''Diet''"
definition speedKey :: string where "speedKey = ''Average Speed (km/h)''"

text \<open>The filter callback: \<open>row.Animal && row.Diet && row["Average Speed (km/h)"]\<close>.\<close>

definition rowComplete :: "row \<Rightarrow> bool" where
  "rowComplete r = (truthy (r animalKey) \<and> truthy (r dietKey) \<and> truthy (r speedKey))"

text \<open>
  \<open>v ?? ""\<close>. The map callback reads \<open>row.Animal\<close> and \<open>row.Diet\<close> directly; they
  are defined for every row that passed the filter (lemma \<open>rowComplete_defined\<close>), so the
  empty default is used for the speed field only, as in the source.
\<close>

definition orEmpty :: "string option \<Rightarrow> string" where
  "orEmpty v = (case v of None \<Rightarrow> [] | Some s \<Rightarrow> s)"

definition toDatum :: "row \<Rightarrow> AnimalDatum" where
  "toDatum r =
     \<lparr> name = orEmpty (r animalKey),
       diet = orEmpty (r dietKey),
       speed = parseFloat (orEmpty (r speedKey)) \<rparr>"

text \<open>\<open>data.filter(...).map(...)\<close>, the value passed to \<open>setAnimalData\<close>.\<close>

definition loadRows :: "row list \<Rightarrow> AnimalDatum list" where
  "loadRows data = map toDatum (filter rowComplete data)"

text \<open>A row given by its three columns (a column that is \<open>None\<close> is absent).\<close>

definition mkRow :: "string option \<Rightarrow> string option \<Rightarrow> string option \<Rightarrow> row" where
  "mkRow a d s = (\<lambda>k. if k = animalKey then a else if k = dietKey then d
                       else if k = speedKey then s else None)"

section \<open>Arithmetic of JavaScript numbers\<close>

text \<open>
  The operators on numbers with the special values written out: \<open>NaN\<close> absorbs, the
  infinities follow the IEEE rules. Zero carries no sign (it is read as \<open>+0\<close> when it
  divides).
\<close>

fun jneg :: "jsnum \<Rightarrow> jsnum" where
  "jneg NaN = NaN"
| "jneg NegInfinity = PosInfinity"
| "jneg PosInfinity = NegInfinity"
| "jneg (Num a) = Num (- a)"

fun jadd :: "jsnum \<Rightarrow> jsnum \<Rightarrow> jsnum" where
  "jadd (Num a) (Num b) = Num (a + b)"
| "jadd NaN _ = NaN"
| "jadd _ NaN = NaN"
| "jadd PosInfinity NegInfinity = NaN"
| "jadd NegInfinity PosInfinity = NaN"
| "jadd PosInfinity _ = PosInfinity"
| "jadd _ PosInfinity = PosInfinity"
| "jadd NegInfinity _ = NegInfinity"
| "jadd _ NegInfinity = NegInfinity"

definition jsub :: "jsnum \<Rightarrow> jsnum \<Rightarrow> jsnum" where
  "jsub a b = jadd a (jneg b)"

definition signedInfinity :: "bool \<Rightarrow> jsnum" where
  "signedInfinity positive = (if positive then PosInfinity else NegInfinity)"

fun jmul :: "jsnum \<Rightarrow> jsnum \<Rightarrow> jsnum" where
  "jmul (Num a) (Num b) = Num (a * b)"
| "jmul NaN _ = NaN"
| "jmul _ NaN = NaN"
| "jmul (Num a) PosInfinity = (if a = 0 then NaN else signedInfinity (0 < a))"
| "jmul (Num a) NegInfinity = (if a = 0 then NaN else signedInfinity (a < 0))"
| "jmul PosInfinity (Num b) = (if b = 0 then NaN else signedInfinity (0 < b))"
| "jmul NegInfinity (Num b) = (if b = 0 then NaN else signedInfinity (b < 0))"
| "jmul PosInfinity PosInfinity = PosInfinity"
| "jmul NegInfinity NegInfinity = PosInfinity"
| "jmul PosInfinity NegInfinity = NegInfinity"
| "jmul NegInfinity PosInfinity = NegInfinity"

fun jdiv :: "jsnum \<Rightarrow> jsnum \<Rightarrow> jsnum" where
  "jdiv (Num a) (Num b) =
     (if b \<noteq> 0 then Num (a / b) else if a = 0 then NaN else signedInfinity (0 < a))"
| "jdiv NaN _ = NaN"
| "jdiv _ NaN = NaN"
| "jdiv (Num a) _ = Num 0"
| "jdiv PosInfinity (Num b) = signedInfinity (0 \<le> b)"
| "jdiv NegInfinity (Num b) = signedInfinity (b < 0)"
| "jdiv _ _ = NaN"

text \<open>The comparison \<open>a < b\<close> on numbers: false as soon as one side is \<open>NaN\<close>.\<close>

fun jless :: "jsnum \<Rightarrow> jsnum \<Rightarrow> bool" where
  "jless (Num a) (Num b) = (a < b)"
| "jless NegInfinity (Num b) = True"
| "jless NegInfinity PosInfinity = True"
| "jless (Num a) PosInfinity = True"
| "jless _ _ = False"

section \<open>The d3 functions the renderer calls\<close>

text \<open>
  The scale builder of the spec's section 4.2 is made of calls into the d3 library
  (\<open>d3.max\<close>, \<open>d3.scaleBand\<close>, \<open>d3.scaleLinear\<close> with \<open>nice\<close>,
  \<open>d3.scaleOrdinal\<close>), whose code is not among the sources of the repository. The
  spec names each scale, its domain, its range and its padding; the arithmetic is the
  one the library documents for these calls (d3-array \<open>max\<close> and \<open>tickIncrement\<close>,
  d3-scale \<open>band\<close>, \<open>continuous\<close>, \<open>linear\<close> and \<open>ordinal\<close>), written out for
  the options the renderer uses and quoted before each definition.
\<close>

subsection \<open>\<open>d3.max\<close>\<close>

text \<open>
  Modelled from the spec: one step of \<open>max(value) over all records\<close>, the body of
  the library's loop (\<open>d3.max\<close> is missing from the sources). It keeps the first
  value that equals itself, so \<open>NaN\<close> is skipped, and then every value greater than
  the running maximum:
  \<^verbatim>\<open>if (value != null && (max < value || (max === undefined && value >= value))) max = value\<close>
\<close>

definition maxStep :: "jsnum option \<Rightarrow> jsnum \<Rightarrow> jsnum option" where
  "maxStep mx v =
     (case mx of
        None \<Rightarrow> if v \<noteq> NaN then Some v else None
      | Some m \<Rightarrow> if jless m v then Some v else Some m)"

text \<open>
  Modelled from the spec: \<open>d3.max(values, valueof)\<close>, the loop over all values,
  starting from \<open>undefined\<close>, which is also the result when no value is kept.
\<close>

definition d3max :: "'a list \<Rightarrow> ('a \<Rightarrow> jsnum) \<Rightarrow> jsnum option" where
  "d3max values valueof = foldl (\<lambda>mx d. maxStep mx (valueof d)) None values"

subsection \<open>\<open>d3.scaleBand\<close>\<close>

text \<open>
  Modelled from the spec: the domain of a discrete scale, \<open>the ordered sequence of
  all names (insertion order from the data)\<close>; \<open>scale.domain(names)\<close> of the library
  (missing from the sources) keeps the first occurrence of every name.
\<close>

definition internDomain :: "'a list \<Rightarrow> 'a list" where
  "internDomain vs = foldl (\<lambda>dom v. if v \<in> set dom then dom else dom @ [v]) [] vs"

text \<open>
  Modelled from the spec: the index of a key in the domain of a discrete scale (the
  library's \<open>index.get(d)\<close>), \<open>undefined\<close> for a key that is not in it.
\<close>

fun indexOf :: "'a \<Rightarrow> 'a list \<Rightarrow> nat option" where
  "indexOf k [] = None"
| "indexOf k (v # vs) = (if k = v then Some 0 else map_option Suc (indexOf k vs))"

text \<open>
  Modelled from the spec: the position scale (\<open>discrete domain of names, range
  [leftMargin, width - rightMargin], with uniform padding between bands\<close>), which is
  \<open>d3.scaleBand().domain(names).range(rng).padding(p)\<close>; the library is missing from
  the sources. \<open>padding(p)\<close> sets \<open>paddingOuter = p\<close> and
  \<open>paddingInner = min(1, p)\<close>; \<open>align\<close> is 0.5 and \<open>round\<close> is off. The library's
  \<open>rescale\<close>:
  \<^verbatim>\<open>step = (stop - start) / Math.max(1, n - paddingInner + paddingOuter * 2);
start += (stop - start - step * (n - paddingInner)) * align;
bandwidth = step * (1 - paddingInner);
values = sequence(n).map(i => start + step * i)\<close>
\<close>

record BandScale =
  bandDomain :: "string list"
  bandValues :: "real list"
  bandStep :: real
  bandwidth :: real

definition scaleBand :: "string list \<Rightarrow> real \<times> real \<Rightarrow> real \<Rightarrow> BandScale" where
  "scaleBand names rng padding =
     (let domain = internDomain names;
          n = real (length domain);
          paddingOuter = padding;
          paddingInner = min 1 padding;
          r0 = fst rng; r1 = snd rng;
          reverse = r1 < r0;
          start = (if reverse then r1 else r0);
          stop = (if reverse then r0 else r1);
          step = (stop - start) / max 1 (n - paddingInner + paddingOuter * 2);
          start' = start + (stop - start - step * (n - paddingInner)) * (1 / 2);
          values = map (\<lambda>i. start' + step * real i) [0 ..< length domain]
      in \<lparr> bandDomain = domain,
           bandValues = (if reverse then rev values else values),
           bandStep = step,
           bandwidth = step * (1 - paddingInner) \<rparr>)"

text \<open>
  Modelled from the spec: the position scale applied to a name (\<open>maps a name to an
  offset\<close>; the library's \<open>x(d)\<close>, missing from the sources): the start of the band
  of a name of the domain, \<open>range[i % range.length]\<close>, and \<open>undefined\<close> for any other
  name (a band scale has no implicit domain).
\<close>

definition bandApply :: "BandScale \<Rightarrow> string \<Rightarrow> real option" where
  "bandApply sc d =
     (case indexOf d (bandDomain sc) of
        None \<Rightarrow> None
      | Some i \<Rightarrow> Some (bandValues sc ! (i mod length (bandValues sc))))"

subsection \<open>\<open>d3.scaleLinear\<close> and \<open>nice\<close>\<close>

text \<open>
  Modelled from the spec: the step by which the value scale's domain is \<open>niced\<close>
  (\<open>rounded to a human-friendly upper bound\<close>); \<open>tickIncrement(start, stop, count)\<close>
  of d3-array, missing from the sources:
  \<^verbatim>\<open>step = (stop - start) / Math.max(0, count), power = Math.floor(Math.log10(step)),
error = step / Math.pow(10, power),
factor = error >= e10 ? 10 : error >= e5 ? 5 : error >= e2 ? 2 : 1;
inc = power < 0 ? -(Math.pow(10, -power) / factor) : Math.pow(10, power) * factor\<close>
  with \<open>e10 = sqrt 50\<close>, \<open>e5 = sqrt 10\<close>, \<open>e2 = sqrt 2\<close>. It is called with
  \<open>count = 10\<close> only. A raw step of zero has logarithm \<open>-Infinity\<close> and yields
  \<open>-Infinity\<close>; a negative one yields \<open>NaN\<close>.
\<close>

definition tickIncrement :: "real \<Rightarrow> real \<Rightarrow> real \<Rightarrow> jsnum" where
  "tickIncrement start stop count =
     (let step = (stop - start) / max 0 count in
      if 0 < step then
        (let power' = \<lfloor>log 10 step\<rfloor>;
             error = step / (10 powi power');
             factor = (if sqrt 50 \<le> error then 10 else if sqrt 10 \<le> error then 5
                       else if sqrt 2 \<le> error then 2 else (1::real))
         in if power' < 0 then Num (- ((10 powi (- power')) / factor))
            else Num ((10 powi power') * factor))
      else if step = 0 then NegInfinity
      else NaN)"

text \<open>
  Modelled from the spec: the loop of \<open>scale.nice\<close> (d3-scale \<open>linear.js\<close>, missing
  from the sources), at most ten rounds:
  \<^verbatim>\<open>while (maxIter-- > 0) {
  step = tickIncrement(start, stop, count);
  if (step === prestep) { d[i0] = start; d[i1] = stop; return domain(d); }
  else if (step > 0) { start = Math.floor(start / step) * step; stop = Math.ceil(stop / step) * step; }
  else if (step < 0) { start = Math.ceil(start * step) / step; stop = Math.floor(stop * step) / step; }
  else break;
  prestep = step;
}\<close>
  The result \<open>None\<close> stands for leaving the loop without a new domain (the domain stays
  as it was). An infinite step turns both ends into \<open>NaN\<close>, the next increment is
  \<open>NaN\<close> and the loop breaks, so that case leaves at once.
\<close>

fun niceLoop :: "nat \<Rightarrow> real option \<Rightarrow> real \<Rightarrow> real \<Rightarrow> (real \<times> real) option" where
  "niceLoop 0 prestep start stop = None"
| "niceLoop (Suc maxIter) prestep start stop =
     (case tickIncrement start stop 10 of
        Num step \<Rightarrow>
          if Some step = prestep then Some (start, stop)
          else if 0 < step then
            niceLoop maxIter (Some step)
              (real_of_int \<lfloor>start / step\<rfloor> * step) (real_of_int \<lceil>stop / step\<rceil> * step)
          else if step < 0 then
            niceLoop maxIter (Some step)
              (real_of_int \<lceil>start * step\<rceil> / step) (real_of_int \<lfloor>stop * step\<rfloor> / step)
          else None
      | _ \<Rightarrow> None)"

text \<open>
  Modelled from the spec: the \<open>niced\<close> domain, \<open>scale.nice()\<close> on a two-element
  domain (missing from the sources). A domain given in descending order is niced with
  its ends swapped and written back in its own order. With an end that is not finite
  no increment is a number, and the domain stays as it was.
\<close>

definition nice :: "jsnum \<times> jsnum \<Rightarrow> jsnum \<times> jsnum" where
  "nice d =
     (case d of
        (Num d0, Num d1) \<Rightarrow>
          if d1 < d0 then
            (case niceLoop 10 None d1 d0 of
               None \<Rightarrow> d
             | Some (start, stop) \<Rightarrow> (Num stop, Num start))
          else
            (case niceLoop 10 None d0 d1 of
               None \<Rightarrow> d
             | Some (start, stop) \<Rightarrow> (Num start, Num stop))
      | _ \<Rightarrow> d)"

text \<open>
  Modelled from the spec: the value scale (\<open>continuous domain, range
  [height - bottomMargin, topMargin], maps a value to a vertical pixel coordinate\<close>),
  which is \<open>d3.scaleLinear\<close>, missing from the sources. d3-scale \<open>continuous.js\<close>
  for a two-element domain and range, no clamping, number interpolation:
  \<^verbatim>\<open>normalize(a, b) = (b -= a) ? x => (x - a) / b : constant(isNaN(b) ? NaN : 0.5)
interpolateNumber(a, b) = t => a * (1 - t) + b * t
bimap: d1 < d0 ? interpolate(r1, r0)(normalize(d1, d0)(x)) : interpolate(r0, r1)(normalize(d0, d1)(x))
scale(x) = isNaN(x) ? undefined : bimap(x)\<close>
\<close>

record LinearScale =
  linDomain :: "jsnum \<times> jsnum"
  linRange :: "real \<times> real"

text \<open>Modelled from the spec: \<open>normalize(a, b)\<close> of the value scale, as quoted above.\<close>

definition normalize' :: "jsnum \<Rightarrow> jsnum \<Rightarrow> jsnum \<Rightarrow> jsnum" where
  "normalize' a b x =
     (let b' = jsub b a in
      if b' = NaN then NaN
      else if b' = Num 0 then Num (1 / 2)
      else jdiv (jsub x a) b')"

text \<open>Modelled from the spec: \<open>interpolateNumber(a, b)\<close> of the value scale, as quoted above.\<close>

definition interpolateNumber :: "real \<Rightarrow> real \<Rightarrow> jsnum \<Rightarrow> jsnum" where
  "interpolateNumber a b t = jadd (jmul (Num a) (jsub (Num 1) t)) (jmul (Num b) t)"

text \<open>
  Modelled from the spec: the value scale applied to a value, \<open>y(x)\<close>, as quoted
  above: \<open>undefined\<close> for \<open>NaN\<close>, otherwise the interpolation between the range's
  ends.
\<close>

definition linearApply :: "LinearScale \<Rightarrow> jsnum \<Rightarrow> jsnum option" where
  "linearApply sc x =
     (let d0 = fst (linDomain sc); d1 = snd (linDomain sc);
          r0 = fst (linRange sc); r1 = snd (linRange sc)
      in if x = NaN then None
         else if jless d1 d0 then Some (interpolateNumber r1 r0 (normalize' d1 d0 x))
         else Some (interpolateNumber r0 r1 (normalize' d0 d1 x)))"

subsection \<open>\<open>d3.scaleOrdinal\<close>\<close>

text \<open>
  Modelled from the spec: the color scale (\<open>fixed 3-element category enumeration, 3
  fixed colors in matching order\<close>, and a library-chosen color for any other
  category), which is \<open>d3.scaleOrdinal\<close>, missing from the sources. The library's
  ordinal scale has an implicit domain: a key it has not seen is appended to the
  domain, and every key maps to \<open>range[i % range.length]\<close> for its index \<open>i\<close>. The
  fills of the rectangles are computed in data order, so the domain is threaded
  through.
\<close>

fun ordinalApplyAll :: "string list \<Rightarrow> string list \<Rightarrow> string list \<Rightarrow> string list" where
  "ordinalApplyAll domain rng [] = []"
| "ordinalApplyAll domain rng (k # ks) =
     (case indexOf k domain of
        Some i \<Rightarrow> rng ! (i mod length rng) # ordinalApplyAll domain rng ks
      | None \<Rightarrow> rng ! (length domain mod length rng) # ordinalApplyAll (domain @ [k]) rng ks)"

section \<open>The renderer (\<open>AnimalSpeedGraph\<close>, second effect)\<close>

text \<open>
  The \<open>div\<close> the ref points to: its measured size (read from the layout at draw time)
  and its content, a list of \<open>svg\<close> elements. \<open>graphRef.current\<close> is a
  \<open>Container option\<close> (\<open>null\<close> before the element is mounted).
\<close>

record Rect =
  rectX :: "real option"
  rectY :: "jsnum option"
  rectWidth :: real
  rectHeight :: jsnum
  rectFill :: string

text \<open>
  The two axis groups, each with the translation of its \<open>transform\<close>; the bottom
  axis carries one rotated label per name of the position scale's domain. The tick
  values of the left axis are not modelled.
\<close>

datatype AxisGroup =
    AxisBottom real real "string list"
  | AxisLeft real real

record Svg =
  svgWidth :: real
  svgHeight :: real
  rects :: "Rect list"
  groups :: "AxisGroup list"

record Container =
  clientWidth :: nat
  clientHeight :: nat
  innerHTML :: "Svg list"

record Scales =
  xScale :: BandScale
  yScale :: LinearScale

text \<open>
  What one run of the effect leaves: the container, and the scales it built
  (\<open>None\<close> when it returned before building any).
\<close>

record Rendered =
  container :: "Container option"
  scalesBuilt :: "Scales option"

definition marginTop :: real where "marginTop = 70"
definition marginRight :: real where "marginRight = 60"
definition marginBottom :: real where "marginBottom = 80"
definition marginLeft :: real where "marginLeft = 100"

text \<open>\<open>a ?? b\<close> on an optional number, and \<open>Number - undefined = NaN\<close>.\<close>

definition orElse :: "'a option \<Rightarrow> 'a \<Rightarrow> 'a" where
  "orElse v d = (case v of None \<Rightarrow> d | Some a \<Rightarrow> a)"

text \<open>
  The chart's size:
  \<^verbatim>\<open>containerWidth = graphRef.current?.clientWidth ?? 800; width = Math.max(containerWidth, 600)\<close>
  and likewise for the height, with 500 and 400.
\<close>

definition chartWidth :: "Container option \<Rightarrow> real" where
  "chartWidth current =
     (let containerWidth = orElse (map_option (\<lambda>c. real (clientWidth c)) current) 800
      in max containerWidth 600)"

definition chartHeight :: "Container option \<Rightarrow> real" where
  "chartHeight current =
     (let containerHeight = orElse (map_option (\<lambda>c. real (clientHeight c)) current) 500
      in max containerHeight 400)"

definition drawRect :: "BandScale \<Rightarrow> LinearScale \<Rightarrow> real \<Rightarrow> AnimalDatum \<Rightarrow> string \<Rightarrow> Rect" where
  "drawRect x y height d fill =
     \<lparr> rectX = bandApply x (name d),
       rectY = linearApply y (speed d),
       rectWidth = bandwidth x,
       rectHeight = jsub (Num (height - marginBottom)) (orElse (linearApply y (speed d)) NaN),
       rectFill = fill \<rparr>"

definition render :: "Container option \<Rightarrow> AnimalDatum list \<Rightarrow> Rendered" where
  "render current animalData =
     (let cleared = map_option (\<lambda>c. c\<lparr>innerHTML := []\<rparr>) current in
      if length animalData = 0 then \<lparr> container = cleared, scalesBuilt = None \<rparr>
      else
        (let width = chartWidth cleared;
             height = chartHeight cleared;
             x = scaleBand (map name animalData) (marginLeft, width - marginRight) (1 / 10);
             y = \<lparr> linDomain = nice (Num 0, orElse (d3max animalData speed) (Num 0)),
                   linRange = (height - marginBottom, marginTop) \<rparr>;
             fills = ordinalApplyAll [''Carnivore'', ''Herbivore'', ''Omnivore'']
                       [''red'', ''green'', ''blue''] (map diet animalData);
             svg = \<lparr> svgWidth = width, svgHeight = height,
                     rects = map (\<lambda>(d, fill). drawRect x y height d fill) (zip animalData fills),
                     groups = [AxisBottom 0 (height - marginBottom) (bandDomain x),
                               AxisLeft marginLeft 0] \<rparr>
         in \<lparr> container = map_option (\<lambda>c. c\<lparr>innerHTML := innerHTML c @ [svg]\<rparr>) cleared,
              scalesBuilt = Some \<lparr> xScale = x, yScale = y \<rparr> \<rparr>))"

text \<open>The number of rectangles on the drawing surface.\<close>

definition rectCount :: "Container option \<Rightarrow> nat" where
  "rectCount current =
     (case current of None \<Rightarrow> 0 | Some c \<Rightarrow> sum_list (map (\<lambda>s. length (rects s)) (innerHTML c)))"

section \<open>The species card (\<open>SpeciesCard\<close>)\<close>

text \<open>
  The form's data (\<open>FormData\<close>, the output type of \<open>speciesSchema\<close>), and a row
  of the \<open>species\<close> table: the same six fields, its \<open>id\<close> and its \<open>author\<close>. The
  table's type is declared in \<open>@/lib/schema\<close>, outside the sources; the fields are
  those the component reads.
\<close>

record FormData =
  scientific_name :: string
  common_name :: "string option"
  kingdom :: string
  total_population :: "int option"
  image' :: "string option"
  description :: "string option"

record Species = FormData +
  species_id :: int
  author :: string

text \<open>The three \<open>useState\<close> cells, with their initial values.\<close>

record CardState =
  isOpenOne :: bool
  isOpenTwo :: bool
  showFormDialog :: bool

definition initialCardState :: CardState where
  "initialCardState = \<lparr> isOpenOne = False, isOpenTwo = False, showFormDialog = True \<rparr>"

definition handleEditRequest :: "Species \<Rightarrow> string \<Rightarrow> CardState \<Rightarrow> CardState" where
  "handleEditRequest species userId st =
     (let hasAccess = (author species = userId) in
      st\<lparr> showFormDialog := hasAccess, isOpenTwo := True \<rparr>)"

text \<open>
  The content of the second dialog: nothing while it is closed, otherwise one of the two
  branches of \<open>showFormDialog ? ... : ...\<close>. Each view lists the handlers its elements
  are wired to: the form's \<open>onSubmit\<close> exists in the edit view only; both views hold a
  \<open>DialogClose\<close> button.
\<close>

datatype DialogView = EditFormView | AccessDeniedView

datatype Handler = OnSubmit | DialogClose

definition dialogTwoContent :: "CardState \<Rightarrow> DialogView option" where
  "dialogTwoContent st =
     (if isOpenTwo st then Some (if showFormDialog st then EditFormView else AccessDeniedView)
      else None)"

fun handlers :: "DialogView \<Rightarrow> Handler list" where
  "handlers EditFormView = [OnSubmit, DialogClose]"
| "handlers AccessDeniedView = [DialogClose]"

text \<open>
  \<open>onSubmit\<close>. The backing store is external: the update request is recorded, and
  the \<open>error\<close> of its response (\<open>null\<close> or an error with a message) is an input.
  The page state holds what the function can change: the card's cells, the form's
  values, the number of route refreshes and the toasts shown.
\<close>

record Toast =
  toastTitle :: string
  toastDescription :: string
  toastVariant :: "string option"

record PostgrestError =
  message :: string

record Page =
  cardState :: CardState
  formValues :: FormData
  updateRequests :: "(int \<times> FormData) list"
  refreshes :: nat
  toasts :: "Toast list"

definition defaultValues :: "Species \<Rightarrow> FormData" where
  "defaultValues species =
     \<lparr> scientific_name = scientific_name species,
       common_name = common_name species,
       kingdom = kingdom species,
       total_population = total_population species,
       image' = image' species,
       description = description species \<rparr>"

definition onSubmit :: "Species \<Rightarrow> FormData \<Rightarrow> PostgrestError option \<Rightarrow> Page \<Rightarrow> Page" where
  "onSubmit species input error page =
     (let sent = page\<lparr> updateRequests := updateRequests page @ [(species_id species, input)] \<rparr> in
      case error of
        Some e \<Rightarrow>
          sent\<lparr> toasts := toasts sent @
                  [\<lparr> toastTitle = ''Something went wrong.'',
                     toastDescription = message e,
                     toastVariant = Some ''destructive'' \<rparr>] \<rparr>
      | None \<Rightarrow>
          sent\<lparr> formValues := defaultValues species,
                cardState := (cardState sent)\<lparr> isOpenTwo := False \<rparr>,
                refreshes := refreshes sent + 1,
                toasts := toasts sent @
                  [\<lparr> toastTitle = ''Species edited!'',
                     toastDescription = ''Successfully edited '' @ scientific_name species @ ''.'',
                     toastVariant = None \<rparr>] \<rparr>)"

section \<open>Observations and sample data\<close>

text \<open>The width and height attributes of the \<open>svg\<close> elements in the container.\<close>

definition surfaceSize :: "Container option \<Rightarrow> (real \<times> real) list" where
  "surfaceSize current =
     (case current of
        None \<Rightarrow> []
      | Some c \<Rightarrow> map (\<lambda>s. (svgWidth s, svgHeight s)) (innerHTML c))"

text \<open>
  What the scales of a run give: the band width and the band start of a name
  (\<open>x.bandwidth()\<close>, \<open>x(name)\<close>), the pixel of a value (\<open>y(value)\<close>), the value
  scale's domain and range, and the rectangles drawn.
\<close>

definition bandwidthOf :: "Rendered \<Rightarrow> real option" where
  "bandwidthOf r = map_option (\<lambda>sc. bandwidth (xScale sc)) (scalesBuilt r)"

definition xOf :: "Rendered \<Rightarrow> string \<Rightarrow> real option" where
  "xOf r d = (case scalesBuilt r of None \<Rightarrow> None | Some sc \<Rightarrow> bandApply (xScale sc) d)"

definition yOf :: "Rendered \<Rightarrow> jsnum \<Rightarrow> jsnum option" where
  "yOf r v = (case scalesBuilt r of None \<Rightarrow> None | Some sc \<Rightarrow> linearApply (yScale sc) v)"

definition yDomainOf :: "Rendered \<Rightarrow> (jsnum \<times> jsnum) option" where
  "yDomainOf r = map_option (\<lambda>sc. linDomain (yScale sc)) (scalesBuilt r)"

definition yRangeOf :: "Rendered \<Rightarrow> (real \<times> real) option" where
  "yRangeOf r = map_option (\<lambda>sc. linRange (yScale sc)) (scalesBuilt r)"

definition drawnRects :: "Rendered \<Rightarrow> Rect list" where
  "drawnRects r =
     (case container r of None \<Rightarrow> [] | Some c \<Rightarrow> concat (map rects (innerHTML c)))"

text \<open>
  The upper end handed to the value scale's domain,
  \<open>d3.max(animalData, d => d.speed) ?? 0\<close>.
\<close>

definition maxValue :: "AnimalDatum list \<Rightarrow> jsnum" where
  "maxValue animalData = orElse (d3max animalData speed) (Num 0)"

text \<open>The data model's invariant on a record's value: a finite number, not negative.\<close>

definition validValue :: "jsnum \<Rightarrow> bool" where
  "validValue v = (case v of Num a \<Rightarrow> 0 \<le> a | _ \<Rightarrow> False)"

text \<open>Sample inputs for the evaluated examples.\<close>

definition sampleContainer :: Container where
  "sampleContainer = \<lparr> clientWidth = 600, clientHeight = 400, innerHTML = [] \<rparr>"

definition cheetah :: AnimalDatum where
  "cheetah = \<lparr> name = ''Cheetah'', diet = ''Carnivore'', speed = Num 120 \<rparr>"

definition elephant :: AnimalDatum where
  "elephant = \<lparr> name = ''Elephant'', diet = ''Herbivore'', speed = Num 25 \<rparr>"

definition sampleSpecies :: Species where
  "sampleSpecies =
     \<lparr> scientific_name = ''Cavia porcellus'', common_name = Some ''Guinea pig'',
       kingdom = ''Animalia'', total_population = Some 300000, image' = None,
       description = None, species_id = 7, author = ''user-a'' \<rparr>"

definition sampleInput :: FormData where
  "sampleInput =
     \<lparr> scientific_name = ''Cavia aperea'', common_name = None, kingdom = ''Animalia'',
       total_population = None, image' = None, description = None \<rparr>"

definition samplePage :: Page where
  "samplePage =
     \<lparr> cardState = \<lparr> isOpenOne = False, isOpenTwo = True, showFormDialog = True \<rparr>,
       formValues = sampleInput, updateRequests = [], refreshes = 0, toasts = [] \<rparr>"

section \<open>Loader: basic facts\<close>

lemma rowComplete_defined:
  "rowComplete r \<Longrightarrow> \<exists>a d s. r animalKey = Some a \<and> r dietKey = Some d \<and> r speedKey = Some s
      \<and> a \<noteq> [] \<and> d \<noteq> [] \<and> s \<noteq> []"
  by (auto simp: rowComplete_def truthy_def split: option.splits)

lemma keys_distinct:
  "animalKey \<noteq> dietKey" "animalKey \<noteq> speedKey" "dietKey \<noteq> speedKey"
  by (simp_all add: animalKey_def dietKey_def speedKey_def)

lemma mkRow_fields:
  "mkRow a d s animalKey = a" "mkRow a d s dietKey = d" "mkRow a d s speedKey = s"
  using keys_distinct by (auto simp: mkRow_def)

lemma parseFloat_NA: "parseFloat ''N/A'' = NaN"
  by (simp add: parseFloat_def strUnsignedDecimalLiteral_def isWhiteSpace_def isDigit_def)

lemma loadRows_append: "loadRows (xs @ ys) = loadRows xs @ loadRows ys"
  by (simp add: loadRows_def)

lemma loadRows_Cons:
  "loadRows (r # rs) = (if rowComplete r then toDatum r # loadRows rs else loadRows rs)"
  by (simp add: loadRows_def)

section \<open>Loader: the claims\<close>

text \<open>
  C1 (as amended). The loader has no numeric validation: a row whose three required
  fields are truthy is kept even when its value field does not parse as a number, and
  the record it yields carries the value \<open>NaN\<close>. The rows before and after it are
  loaded as they would be without it.
\<close>

theorem unparseable_value_kept_as_NaN:
  assumes "rowComplete r" and "parseFloat (orEmpty (r speedKey)) = NaN"
  shows "loadRows (xs @ r # ys) =
           loadRows xs @
           \<lparr> name = orEmpty (r animalKey), diet = orEmpty (r dietKey), speed = NaN \<rparr> #
           loadRows ys"
  using assms by (simp add: loadRows_append loadRows_Cons toDatum_def)

text \<open>
  C1, witness: the row with the value \<open>"N/A"\<close>, loaded on its own.
\<close>

theorem unparseable_value_kept_as_NaN_witness:
  "rowComplete (mkRow (Some ''Cheetah'') (Some ''Carnivore'') (Some ''N/A'')) \<and>
   parseFloat (orEmpty (mkRow (Some ''Cheetah'') (Some ''Carnivore'') (Some ''N/A'') speedKey)) = NaN \<and>
   loadRows ([] @ mkRow (Some ''Cheetah'') (Some ''Carnivore'') (Some ''N/A'') # []) =
     [\<lparr> name = ''Cheetah'', diet = ''Carnivore'', speed = NaN \<rparr>]"
proof -
  let ?r = "mkRow (Some ''Cheetah'') (Some ''Carnivore'') (Some ''N/A'')"
  have c: "rowComplete ?r"
    by (simp add: rowComplete_def mkRow_fields truthy_def)
  have p: "parseFloat (orEmpty (?r speedKey)) = NaN"
    by (simp add: mkRow_fields orEmpty_def parseFloat_NA)
  from unparseable_value_kept_as_NaN [OF c p, of "[]" "[]"] c p
  show ?thesis
    by (simp add: mkRow_fields orEmpty_def loadRows_def)
qed

text \<open>
  C1, counterexample to the claim as stated: the single row
  \<open>{Animal: "Cheetah", Diet: "Carnivore", Average Speed (km/h): "N/A"}\<close> is not
  excluded; the loaded set holds one record, whose value is \<open>NaN\<close>.
\<close>

theorem unparseable_value_counterexample:
  "loadRows [mkRow (Some ''Cheetah'') (Some ''Carnivore'') (Some ''N/A'')] =
     [\<lparr> name = ''Cheetah'', diet = ''Carnivore'', speed = NaN \<rparr>]"
  by (simp add: loadRows_def rowComplete_def toDatum_def mkRow_fields truthy_def orEmpty_def
        parseFloat_NA)

text \<open>
  C2. A row in which any of the three required fields (\<open>Animal\<close>, \<open>Diet\<close>,
  \<open>Average Speed (km/h)\<close>) is missing or empty is dropped: the loaded record set is
  the one obtained from the input without that row. In addition, every loaded record
  is the image of an input row whose three fields are all truthy, so no record stems
  from an incomplete row.
\<close>

theorem incomplete_row_dropped:
  assumes "\<not> truthy (r animalKey) \<or> \<not> truthy (r dietKey) \<or> \<not> truthy (r speedKey)"
  shows "loadRows (xs @ r # ys) = loadRows (xs @ ys) \<and>
         (\<forall>d \<in> set (loadRows (xs @ r # ys)).
            \<exists>q \<in> set (xs @ ys). d = toDatum q \<and>
               truthy (q animalKey) \<and> truthy (q dietKey) \<and> truthy (q speedKey))"
proof -
  from assms have n: "\<not> rowComplete r"
    by (auto simp: rowComplete_def)
  then have eq: "loadRows (xs @ r # ys) = loadRows (xs @ ys)"
    by (simp add: loadRows_append loadRows_Cons)
  have "\<exists>q \<in> set (xs @ ys). d = toDatum q \<and>
          truthy (q animalKey) \<and> truthy (q dietKey) \<and> truthy (q speedKey)"
    if "d \<in> set (loadRows (xs @ ys))" for d
  proof -
    from that obtain q where "q \<in> set (xs @ ys)" "rowComplete q" "d = toDatum q"
      by (auto simp: loadRows_def)
    then show ?thesis
      by (auto simp: rowComplete_def)
  qed
  with eq show ?thesis
    by simp
qed

text \<open>
  C2, witness: the row of the spec's example, \<open>{Animal: "", Diet: "Carnivore", Average Speed: "10"}\<close>.
\<close>

theorem incomplete_row_dropped_witness:
  "\<not> truthy (mkRow (Some '''') (Some ''Carnivore'') (Some ''10'') animalKey) \<and>
   loadRows [mkRow (Some '''') (Some ''Carnivore'') (Some ''10'')] = []"
proof -
  let ?r = "mkRow (Some '''') (Some ''Carnivore'') (Some ''10'')"
  have h: "\<not> truthy (?r animalKey)"
    by (simp add: mkRow_fields truthy_def)
  then have "\<not> truthy (?r animalKey) \<or> \<not> truthy (?r dietKey) \<or> \<not> truthy (?r speedKey)"
    by simp
  from incomplete_row_dropped [OF this, of "[]" "[]"] h
  show ?thesis
    by (simp add: loadRows_def)
qed

section \<open>Renderer: basic facts\<close>

lemma length_ordinalApplyAll: "length (ordinalApplyAll domain rng ks) = length ks"
  by (induction ks arbitrary: domain) (auto split: option.splits)

lemma render_None: "container (render None animalData) = None"
  by (simp add: render_def Let_def)

lemma render_Some_container: "\<exists>c'. container (render (Some c) animalData) = Some c'"
  by (simp add: render_def Let_def)

lemma rectCount_render_Some:
  "rectCount (container (render (Some c) animalData)) = length animalData"
  by (simp add: render_def Let_def rectCount_def length_ordinalApplyAll)

lemma surfaceSize_render_Some:
  "animalData \<noteq> [] \<Longrightarrow>
   surfaceSize (container (render (Some c) animalData)) =
     [(max (real (clientWidth c)) 600, max (real (clientHeight c)) 400)]"
  by (simp add: render_def Let_def surfaceSize_def orElse_def chartWidth_def chartHeight_def)

lemma chartWidth_ge: "600 \<le> chartWidth current"
  by (simp add: chartWidth_def Let_def)

lemma chartHeight_ge: "400 \<le> chartHeight current"
  by (simp add: chartHeight_def Let_def)

lemma chart_sample: "chartWidth (Some sampleContainer) = 600" "chartHeight (Some sampleContainer) = 400"
  by (simp_all add: chartWidth_def chartHeight_def sampleContainer_def orElse_def)

lemma render_scales:
  "animalData \<noteq> [] \<Longrightarrow>
   scalesBuilt (render current animalData) =
     Some \<lparr> xScale = scaleBand (map name animalData)
                        (marginLeft, chartWidth current - marginRight) (1 / 10),
            yScale = \<lparr> linDomain = nice (Num 0, orElse (d3max animalData speed) (Num 0)),
                       linRange = (chartHeight current - marginBottom, marginTop) \<rparr> \<rparr>"
  by (cases current) (simp_all add: render_def Let_def chartWidth_def chartHeight_def)

lemma render_obs:
  assumes "animalData \<noteq> []"
  shows "bandwidthOf (render current animalData) =
           Some (bandwidth (scaleBand (map name animalData)
                   (marginLeft, chartWidth current - marginRight) (1 / 10)))"
    and "xOf (render current animalData) d =
           bandApply (scaleBand (map name animalData)
                   (marginLeft, chartWidth current - marginRight) (1 / 10)) d"
    and "yOf (render current animalData) v =
           linearApply \<lparr> linDomain = nice (Num 0, orElse (d3max animalData speed) (Num 0)),
                         linRange = (chartHeight current - marginBottom, marginTop) \<rparr> v"
    and "yDomainOf (render current animalData) =
           Some (nice (Num 0, orElse (d3max animalData speed) (Num 0)))"
    and "yRangeOf (render current animalData) = Some (chartHeight current - marginBottom, marginTop)"
  using render_scales [OF assms, of current]
  by (simp_all add: bandwidthOf_def xOf_def yOf_def yDomainOf_def yRangeOf_def)

lemma drawnRects_length:
  "length (drawnRects (render (Some c) animalData)) = length animalData"
  by (simp add: render_def Let_def drawnRects_def length_ordinalApplyAll)

lemma drawnRects_nth:
  assumes "i < length animalData"
  shows "rectY (drawnRects (render (Some c) animalData) ! i) =
           yOf (render (Some c) animalData) (speed (animalData ! i))"
    and "rectHeight (drawnRects (render (Some c) animalData) ! i) =
           jsub (Num (chartHeight (Some c) - marginBottom))
             (orElse (yOf (render (Some c) animalData) (speed (animalData ! i))) NaN)"
    and "rectX (drawnRects (render (Some c) animalData) ! i) =
           xOf (render (Some c) animalData) (name (animalData ! i))"
    and "Some (rectWidth (drawnRects (render (Some c) animalData) ! i)) =
           bandwidthOf (render (Some c) animalData)"
proof -
  from assms have ne: "animalData \<noteq> []"
    by auto
  have h: "chartHeight (Some (c\<lparr>innerHTML := []\<rparr>)) = chartHeight (Some c)"
    by (simp add: chartHeight_def)
  have w: "chartWidth (Some (c\<lparr>innerHTML := []\<rparr>)) = chartWidth (Some c)"
    by (simp add: chartWidth_def)
  show "rectY (drawnRects (render (Some c) animalData) ! i) =
           yOf (render (Some c) animalData) (speed (animalData ! i))"
    using assms ne
    by (simp add: render_def Let_def drawnRects_def yOf_def drawRect_def length_ordinalApplyAll)
  show "rectHeight (drawnRects (render (Some c) animalData) ! i) =
           jsub (Num (chartHeight (Some c) - marginBottom))
             (orElse (yOf (render (Some c) animalData) (speed (animalData ! i))) NaN)"
    using assms ne
    by (simp add: render_def Let_def drawnRects_def yOf_def drawRect_def length_ordinalApplyAll h)
  show "rectX (drawnRects (render (Some c) animalData) ! i) =
           xOf (render (Some c) animalData) (name (animalData ! i))"
    using assms ne
    by (simp add: render_def Let_def drawnRects_def xOf_def drawRect_def length_ordinalApplyAll)
  show "Some (rectWidth (drawnRects (render (Some c) animalData) ! i)) =
           bandwidthOf (render (Some c) animalData)"
    using assms ne
    by (simp add: render_def Let_def drawnRects_def bandwidthOf_def drawRect_def
          length_ordinalApplyAll)
qed

section \<open>Renderer: clearing, short-circuit and surface size\<close>

text \<open>
  C6. With an empty record set the effect only clears the container and returns: no
  scale has been built. Scales are built exactly when the record set is not empty, so
  the maximum (taken while the value scale is built) is never taken over no records.
\<close>

theorem empty_data_short_circuits:
  "render current [] =
     \<lparr> container = map_option (\<lambda>c. c\<lparr>innerHTML := []\<rparr>) current, scalesBuilt = None \<rparr>
   \<and> (scalesBuilt (render current animalData) = None) = (animalData = [])"
  by (simp add: render_def Let_def)

text \<open>
  C7. Rendering starts by emptying the container, so what it leaves does not depend on
  the container's earlier content; after a render the container holds as many rectangles
  as there are records, and rendering the same records again into the result leaves the
  same number of rectangles.
\<close>

theorem clear_before_draw:
  "render (Some (c\<lparr>innerHTML := old\<rparr>)) animalData =
     render (Some (c\<lparr>innerHTML := []\<rparr>)) animalData
   \<and> rectCount (container (render (Some c) animalData)) = length animalData
   \<and> rectCount (container (render (container (render current animalData)) animalData)) =
       rectCount (container (render current animalData))"
proof -
  have ignore: "render (Some (c\<lparr>innerHTML := old\<rparr>)) animalData =
      render (Some (c\<lparr>innerHTML := []\<rparr>)) animalData"
    by (simp add: render_def Let_def)
  have "rectCount (container (render (container (render current animalData)) animalData)) =
      rectCount (container (render current animalData))"
  proof (cases current)
    case None
    then show ?thesis
      by (simp add: render_None)
  next
    case (Some c0)
    moreover obtain c' where "container (render (Some c0) animalData) = Some c'"
      using render_Some_container by blast
    ultimately show ?thesis
      using rectCount_render_Some [of c0 animalData] rectCount_render_Some [of c' animalData]
      by simp
  qed
  with ignore show ?thesis
    by (simp add: rectCount_render_Some)
qed

text \<open>
  C8 (as amended). For a non-empty record set and a mounted container, the drawing
  surface's width is the larger of the measured width and 600 and its height the larger
  of the measured height and 400: the measured dimension where that is at least the
  minimum, the minimum otherwise. So the width is at least 600 and the height at least
  400 for every measured size.
\<close>

theorem surface_size_clamped:
  assumes "animalData \<noteq> []"
  shows "surfaceSize (container (render (Some c) animalData)) =
           [(max (real (clientWidth c)) 600, max (real (clientHeight c)) 400)]
         \<and> (\<forall>(w, h) \<in> set (surfaceSize (container (render (Some c) animalData))).
               600 \<le> w \<and> 400 \<le> h
               \<and> (600 \<le> clientWidth c \<longrightarrow> w = real (clientWidth c))
               \<and> (400 \<le> clientHeight c \<longrightarrow> h = real (clientHeight c)))"
  using surfaceSize_render_Some [OF assms, of c] by auto

text \<open>
  C8, witness: a container measured at 1024 by 300 keeps its width and gets the minimum height.
\<close>

theorem surface_size_clamped_witness:
  "[cheetah] \<noteq> []
   \<and> surfaceSize (container (render
        (Some \<lparr> clientWidth = 1024, clientHeight = 300, innerHTML = [] \<rparr>) [cheetah])) =
       [(1024, 400)]"
  using surface_size_clamped [of "[cheetah]" "\<lparr> clientWidth = 1024, clientHeight = 300, innerHTML = [] \<rparr>"]
  by simp

text \<open>
  C8, counterexample to the claim as stated: a container that has been measured, at
  300 by 200, does not get a surface of its measured size; the surface is 600 by 400.
\<close>

theorem surface_size_counterexample:
  "surfaceSize (container (render
     (Some \<lparr> clientWidth = 300, clientHeight = 200, innerHTML = [] \<rparr>) [cheetah])) =
     [(600, 400)]"
  by (simp add: render_def Let_def orElse_def surfaceSize_def chartWidth_def chartHeight_def)

section \<open>The position scale\<close>

lemma internDomain_foldl_set:
  "set (foldl (\<lambda>dom v. if v \<in> set dom then dom else dom @ [v]) acc vs) = set acc \<union> set vs"
  by (induction vs arbitrary: acc) auto

lemma internDomain_foldl_distinct:
  "distinct acc \<Longrightarrow> distinct (foldl (\<lambda>dom v. if v \<in> set dom then dom else dom @ [v]) acc vs)"
  by (induction vs arbitrary: acc) auto

lemma set_internDomain: "set (internDomain vs) = set vs"
  by (simp add: internDomain_def internDomain_foldl_set)

lemma distinct_internDomain: "distinct (internDomain vs)"
  by (simp add: internDomain_def internDomain_foldl_distinct)

lemma length_internDomain: "length (internDomain vs) = card (set vs)"
  using distinct_card [OF distinct_internDomain, of vs] by (simp add: set_internDomain)

lemma indexOf_mem:
  "k \<in> set xs \<Longrightarrow> \<exists>i. indexOf k xs = Some i \<and> i < length xs \<and> xs ! i = k"
  by (induction xs) auto

lemma indexOf_nth: "indexOf k xs = Some i \<Longrightarrow> i < length xs \<and> xs ! i = k"
  by (induction xs arbitrary: i) (auto split: if_splits)

lemma indexOf_inj: "indexOf a xs = Some i \<Longrightarrow> indexOf b xs = Some i \<Longrightarrow> a = b"
  using indexOf_nth by metis

lemma scaleBand_forward:
  assumes "r0 \<le> r1" and "names \<noteq> []"
  shows "bandDomain (scaleBand names (r0, r1) (1 / 10)) = internDomain names"
    and "bandStep (scaleBand names (r0, r1) (1 / 10)) = (r1 - r0) / (real (card (set names)) + 1 / 10)"
    and "bandwidth (scaleBand names (r0, r1) (1 / 10)) =
           (r1 - r0) / (real (card (set names)) + 1 / 10) * (1 - 1 / 10)"
    and "bandValues (scaleBand names (r0, r1) (1 / 10)) =
           map (\<lambda>i. r0 + (r1 - r0) / (real (card (set names)) + 1 / 10) * (1 / 10)
                       + (r1 - r0) / (real (card (set names)) + 1 / 10) * real i)
             [0 ..< card (set names)]"
proof -
  have "card (set names) \<noteq> 0"
    using assms(2) by simp
  then have n: "1 \<le> real (card (set names))"
    by linarith
  then have m: "max 1 (real (card (set names)) - 1 / 10 + 1 / 10 * 2) = real (card (set names)) + 1 / 10"
    by simp
  show "bandDomain (scaleBand names (r0, r1) (1 / 10)) = internDomain names"
    by (simp add: scaleBand_def Let_def)
  show "bandStep (scaleBand names (r0, r1) (1 / 10)) = (r1 - r0) / (real (card (set names)) + 1 / 10)"
    using assms(1) m by (simp add: scaleBand_def Let_def length_internDomain)
  show "bandwidth (scaleBand names (r0, r1) (1 / 10)) =
           (r1 - r0) / (real (card (set names)) + 1 / 10) * (1 - 1 / 10)"
    using assms(1) m by (simp add: scaleBand_def Let_def length_internDomain)
  have "r1 - r0 - (r1 - r0) / (real (card (set names)) + 1 / 10) * (real (card (set names)) - 1 / 10)
        = (r1 - r0) / (real (card (set names)) + 1 / 10) * (2 / 10)"
    using n by (simp add: field_simps)
  then show "bandValues (scaleBand names (r0, r1) (1 / 10)) =
           map (\<lambda>i. r0 + (r1 - r0) / (real (card (set names)) + 1 / 10) * (1 / 10)
                       + (r1 - r0) / (real (card (set names)) + 1 / 10) * real i)
             [0 ..< card (set names)]"
    using assms(1) m by (simp add: scaleBand_def Let_def length_internDomain)
qed

lemma band_gap:
  fixes s :: real
  assumes "0 < s" and "i \<noteq> j"
  shows "x0 + s * real i + s * (1 - 1 / 10) < x0 + s * real j
       \<or> x0 + s * real j + s * (1 - 1 / 10) < x0 + s * real i"
proof -
  have less: "s * (1 - 1 / 10) < s"
    using assms(1) by simp
  have step: "s * real k + s \<le> s * real l" if "k < l" for k l :: nat
  proof -
    from that have "real k + 1 \<le> real l"
      by linarith
    then have "s * (real k + 1) \<le> s * real l"
      using assms(1) by (simp only: mult_le_cancel_left_pos)
    then show ?thesis
      by (simp add: distrib_left)
  qed
  show ?thesis
  proof (cases "i < j")
    case True
    from step [OF this] less show ?thesis
      by linarith
  next
    case False
    with assms(2) have "j < i"
      by simp
    from step [OF this] less show ?thesis
      by linarith
  qed
qed

lemma band_positions:
  assumes "r0 < r1" and "a \<in> set names" and "b \<in> set names" and "a \<noteq> b"
  shows "\<exists>xa xb. bandApply (scaleBand names (r0, r1) (1 / 10)) a = Some xa
           \<and> bandApply (scaleBand names (r0, r1) (1 / 10)) b = Some xb
           \<and> (xa + bandwidth (scaleBand names (r0, r1) (1 / 10)) < xb
               \<or> xb + bandwidth (scaleBand names (r0, r1) (1 / 10)) < xa)"
proof -
  let ?sc = "scaleBand names (r0, r1) (1 / 10)"
  let ?n = "card (set names)"
  define s where "s = (r1 - r0) / (real ?n + 1 / 10)"
  from assms(2) have ne: "names \<noteq> []"
    by auto
  from assms(1) have le: "r0 \<le> r1"
    by simp
  note sb = scaleBand_forward [OF le ne, folded s_def]
  have step: "0 < s"
    using assms(1) by (simp add: s_def add_pos_nonneg)
  obtain i where i: "indexOf a (internDomain names) = Some i" "i < ?n"
    using indexOf_mem [of a "internDomain names"] assms(2)
    by (auto simp: set_internDomain length_internDomain)
  obtain j where j: "indexOf b (internDomain names) = Some j" "j < ?n"
    using indexOf_mem [of b "internDomain names"] assms(3)
    by (auto simp: set_internDomain length_internDomain)
  from i(1) j(1) assms(4) have ij: "i \<noteq> j"
    using indexOf_inj by fastforce
  have xa: "bandApply ?sc a = Some (r0 + s * (1 / 10) + s * real i)"
    using i by (simp add: bandApply_def sb)
  have xb: "bandApply ?sc b = Some (r0 + s * (1 / 10) + s * real j)"
    using j by (simp add: bandApply_def sb)
  have bw: "bandwidth ?sc = s * (1 - 1 / 10)"
    by (rule sb)
  show ?thesis
    unfolding xa xb bw
    using band_gap [OF step ij, of "r0 + s * (1 / 10)"] by blast
qed

lemma range_forward: "marginLeft < chartWidth current - marginRight"
  using chartWidth_ge [of current] by (simp add: marginLeft_def marginRight_def)

text \<open>
  C3 (as amended). For a non-empty record set the band width of the position scale is
  the usable width (width minus left and right margins) divided by the number of
  distinct names plus 0.1, times (1 - 0.1): the library divides the range into
  \<open>n - paddingInner + 2 * paddingOuter = n + 0.1\<close> steps, not \<open>n\<close>. With unique
  names that number is the record count. The bands of two records with distinct names
  do not overlap: one band ends strictly before the other starts.
\<close>

theorem band_scale_geometry:
  assumes "animalData \<noteq> []"
  shows "bandwidthOf (render current animalData) =
           Some ((chartWidth current - marginLeft - marginRight) /
                   (real (card (name ` set animalData)) + 1 / 10) * (1 - 1 / 10))
       \<and> (distinct (map name animalData) \<longrightarrow>
            bandwidthOf (render current animalData) =
              Some ((chartWidth current - marginLeft - marginRight) /
                      (real (length animalData) + 1 / 10) * (1 - 1 / 10)))
       \<and> (\<forall>a \<in> set animalData. \<forall>b \<in> set animalData. name a \<noteq> name b \<longrightarrow>
            (\<exists>xa xb w. xOf (render current animalData) (name a) = Some xa
               \<and> xOf (render current animalData) (name b) = Some xb
               \<and> bandwidthOf (render current animalData) = Some w
               \<and> (xa + w < xb \<or> xb + w < xa)))"
proof -
  let ?names = "map name animalData"
  let ?r1 = "chartWidth current - marginRight"
  from assms have ne: "?names \<noteq> []"
    by simp
  have le: "marginLeft \<le> ?r1"
    using range_forward [of current] by simp
  have usable: "?r1 - marginLeft = chartWidth current - marginLeft - marginRight"
    by simp
  have bw: "bandwidthOf (render current animalData) =
      Some ((chartWidth current - marginLeft - marginRight) /
              (real (card (name ` set animalData)) + 1 / 10) * (1 - 1 / 10))"
    using scaleBand_forward(3) [OF le ne] usable
    by (simp only: render_obs(1) [OF assms] set_map)
  have count: "card (name ` set animalData) = length animalData" if "distinct ?names"
    using distinct_card [OF that] by simp
  have gap: "\<exists>xa xb w. xOf (render current animalData) (name a) = Some xa
               \<and> xOf (render current animalData) (name b) = Some xb
               \<and> bandwidthOf (render current animalData) = Some w
               \<and> (xa + w < xb \<or> xb + w < xa)"
    if "a \<in> set animalData" "b \<in> set animalData" "name a \<noteq> name b" for a b
  proof -
    from that have "name a \<in> set ?names" "name b \<in> set ?names"
      by simp_all
    from band_positions [OF range_forward this that(3), of current]
    show ?thesis
      by (simp only: render_obs(1,2) [OF assms]) blast
  qed
  from bw count gap show ?thesis
    by auto
qed

text \<open>
  C3, witness: two records in a 600 pixel wide chart. The step is 440 / 2.1; the bands
  start at 2540/21 and 6940/21 and are 1320/7 wide.
\<close>

theorem band_scale_geometry_witness:
  "[cheetah, elephant] \<noteq> []
   \<and> bandwidthOf (render (Some sampleContainer) [cheetah, elephant]) = Some (1320 / 7)
   \<and> xOf (render (Some sampleContainer) [cheetah, elephant]) ''Cheetah'' = Some (2540 / 21)
   \<and> xOf (render (Some sampleContainer) [cheetah, elephant]) ''Elephant'' = Some (6940 / 21)"
proof -
  have ne: "[cheetah, elephant] \<noteq> []"
    by simp
  have d: "distinct (map name [cheetah, elephant])"
    by (simp add: cheetah_def elephant_def)
  from band_scale_geometry [OF ne, of "Some sampleContainer"] d
  have "bandwidthOf (render (Some sampleContainer) [cheetah, elephant]) =
      Some ((chartWidth (Some sampleContainer) - marginLeft - marginRight) /
              (real (length [cheetah, elephant]) + 1 / 10) * (1 - 1 / 10))"
    by blast
  then have "bandwidthOf (render (Some sampleContainer) [cheetah, elephant]) = Some (1320 / 7)"
    by (simp add: chart_sample marginLeft_def marginRight_def)
  moreover have "xOf (render (Some sampleContainer) [cheetah, elephant]) ''Cheetah'' = Some (2540 / 21)"
    by (simp only: render_obs(2) [OF ne])
      (simp add: chart_sample scaleBand_def Let_def internDomain_def
          cheetah_def elephant_def marginLeft_def marginRight_def bandApply_def)
  moreover have "xOf (render (Some sampleContainer) [cheetah, elephant]) ''Elephant'' = Some (6940 / 21)"
    by (simp only: render_obs(2) [OF ne])
      (simp add: chart_sample scaleBand_def Let_def internDomain_def
          cheetah_def elephant_def marginLeft_def marginRight_def bandApply_def)
  ultimately show ?thesis
    by simp
qed

text \<open>
  C3, counterexample to the claim as stated: one record in a 600 pixel wide chart. The
  usable width is 440, so the claimed band width is 440 / 1 * 0.9 = 396; the scale's
  band width is 360, 36 pixels less.
\<close>

theorem band_width_counterexample:
  "bandwidthOf (render (Some sampleContainer) [cheetah]) = Some 360
   \<and> (chartWidth (Some sampleContainer) - marginLeft - marginRight) / real (length [cheetah])
       * (1 - 1 / 10) = 396"
proof -
  have "[cheetah] \<noteq> []"
    by simp
  from render_obs(1) [OF this, of "Some sampleContainer"]
  show ?thesis
    by (simp add: chart_sample scaleBand_def Let_def internDomain_def cheetah_def
          marginLeft_def marginRight_def)
qed

section \<open>The value scale\<close>

lemma floor_mult_le:
  fixes x s :: real
  assumes "0 < s"
  shows "real_of_int \<lfloor>x / s\<rfloor> * s \<le> x" and "x \<le> real_of_int \<lceil>x / s\<rceil> * s"
proof -
  have "real_of_int \<lfloor>x / s\<rfloor> * s \<le> x / s * s"
    using assms by (intro mult_right_mono of_int_floor_le) simp
  then show "real_of_int \<lfloor>x / s\<rfloor> * s \<le> x"
    using assms by simp
  have "x / s * s \<le> real_of_int \<lceil>x / s\<rceil> * s"
    using assms by (intro mult_right_mono le_of_int_ceiling) simp
  then show "x \<le> real_of_int \<lceil>x / s\<rceil> * s"
    using assms by simp
qed

lemma ceiling_div_le:
  fixes x s :: real
  assumes "s < 0"
  shows "real_of_int \<lceil>x * s\<rceil> / s \<le> x" and "x \<le> real_of_int \<lfloor>x * s\<rfloor> / s"
proof -
  have "x * s \<le> real_of_int \<lceil>x * s\<rceil>"
    by simp
  then show "real_of_int \<lceil>x * s\<rceil> / s \<le> x"
    using assms by (simp add: neg_divide_le_eq)
  have "real_of_int \<lfloor>x * s\<rfloor> \<le> x * s"
    by simp
  then show "x \<le> real_of_int \<lfloor>x * s\<rfloor> / s"
    using assms by (simp add: neg_le_divide_eq)
qed

lemma niceLoop_widens:
  "niceLoop maxIter prestep start stop = Some (s, t) \<Longrightarrow> s \<le> start \<and> stop \<le> t"
proof (induction maxIter arbitrary: prestep start stop)
  case 0
  then show ?case by simp
next
  case (Suc k)
  show ?case
  proof (cases "tickIncrement start stop 10")
    case (Num step)
    consider "Some step = prestep" | "Some step \<noteq> prestep" "0 < step"
      | "Some step \<noteq> prestep" "step < 0" | "Some step \<noteq> prestep" "step = 0"
      by fastforce
    then show ?thesis
    proof cases
      case 1
      with Suc.prems Num show ?thesis by simp
    next
      case 2
      with Suc.prems Num have
        "niceLoop k (Some step) (real_of_int \<lfloor>start / step\<rfloor> * step)
           (real_of_int \<lceil>stop / step\<rceil> * step) = Some (s, t)"
        by simp
      from Suc.IH [OF this] floor_mult_le [OF 2(2)] show ?thesis
        by (meson order_trans)
    next
      case 3
      with Suc.prems Num have
        "niceLoop k (Some step) (real_of_int \<lceil>start * step\<rceil> / step)
           (real_of_int \<lfloor>stop * step\<rfloor> / step) = Some (s, t)"
        by simp
      from Suc.IH [OF this] ceiling_div_le [OF 3(2)] show ?thesis
        by (meson order_trans)
    next
      case 4
      with Suc.prems Num show ?thesis by simp
    qed
  qed (use Suc.prems in simp_all)
qed

lemma niceLoop_zero_start:
  "niceLoop maxIter prestep 0 stop = Some (s, t) \<Longrightarrow> s = 0"
proof (induction maxIter arbitrary: prestep stop)
  case 0
  then show ?case by simp
next
  case (Suc k)
  then show ?case
    by (auto split: jsnum.splits if_splits)
qed

lemma nice_from_zero:
  assumes "0 \<le> m"
  shows "\<exists>M. nice (Num 0, Num m) = (Num 0, Num M) \<and> m \<le> M"
proof (cases "niceLoop 10 None 0 m")
  case None
  with assms show ?thesis
    by (simp add: nice_def)
next
  case (Some p)
  obtain s t where p: "p = (s, t)"
    by (cases p)
  from Some p niceLoop_widens [of 10 None 0 m s t] niceLoop_zero_start [of 10 None m s t]
  have "s = 0" "m \<le> t"
    by simp_all
  with Some p assms show ?thesis
    by (simp add: nice_def)
qed

lemma linearApply_finite:
  assumes "0 \<le> M"
  shows "linearApply \<lparr> linDomain = (Num 0, Num M), linRange = (r0, r1) \<rparr> (Num v) =
           Some (Num (if M = 0 then r0 * (1 - 1 / 2) + r1 * (1 / 2)
                      else r0 * (1 - v / M) + r1 * (v / M)))"
  using assms by (simp add: linearApply_def normalize'_def interpolateNumber_def jsub_def)

lemma linearApply_infinite:
  "linearApply \<lparr> linDomain = (Num 0, PosInfinity), linRange = (r0, r1) \<rparr> (Num v) = Some (Num r0)"
  by (simp add: linearApply_def normalize'_def interpolateNumber_def jsub_def)

lemma interpolate_antitone:
  fixes r0 r1 t1 t2 :: real
  assumes "r1 \<le> r0" and "t1 \<le> t2"
  shows "r0 * (1 - t2) + r1 * t2 \<le> r0 * (1 - t1) + r1 * t1"
proof -
  have "(r0 - r1) * t1 \<le> (r0 - r1) * t2"
    using assms by (intro mult_left_mono) simp_all
  then show ?thesis
    by (simp add: algebra_simps)
qed

lemma linear_antitone:
  fixes r0 r1 M :: real
  assumes "r1 \<le> r0" and "0 < M" and "v1 \<le> v2"
  shows "r0 * (1 - v2 / M) + r1 * (v2 / M) \<le> r0 * (1 - v1 / M) + r1 * (v1 / M)"
proof -
  have "v1 / M \<le> v2 / M"
    using assms(2,3) by (simp add: divide_right_mono)
  with assms(1) show ?thesis
    by (rule interpolate_antitone)
qed

lemma linear_bounds:
  fixes r0 r1 M :: real
  assumes "r1 \<le> r0" and "0 < M" and "0 \<le> v" and "v \<le> M"
  shows "r1 \<le> r0 * (1 - v / M) + r1 * (v / M)" and "r0 * (1 - v / M) + r1 * (v / M) \<le> r0"
proof -
  from linear_antitone [OF assms(1,2), of v M] assms(4) assms(2)
  show "r1 \<le> r0 * (1 - v / M) + r1 * (v / M)"
    by simp
  from linear_antitone [OF assms(1,2), of 0 v] assms(3)
  show "r0 * (1 - v / M) + r1 * (v / M) \<le> r0"
    by simp
qed

lemma midpoint_bounds:
  fixes r0 r1 :: real
  assumes "r1 \<le> r0"
  shows "r1 \<le> r0 * (1 - 1 / 2) + r1 * (1 / 2)" and "r0 * (1 - 1 / 2) + r1 * (1 / 2) \<le> r0"
  using assms by simp_all

lemma foldl_maxStep_valid:
  assumes "\<forall>d \<in> set ds. validValue (f d)" and "0 \<le> m"
  shows "\<exists>m'. foldl (\<lambda>mx d. maxStep mx (f d)) (Some (Num m)) ds = Some (Num m')
           \<and> m \<le> m' \<and> (m' = m \<or> (\<exists>d \<in> set ds. f d = Num m'))
           \<and> (\<forall>d \<in> set ds. \<exists>v. f d = Num v \<and> 0 \<le> v \<and> v \<le> m')"
  using assms
proof (induction ds arbitrary: m)
  case Nil
  then show ?case by simp
next
  case (Cons d ds)
  from Cons.prems(1) obtain v where v: "f d = Num v" "0 \<le> v"
    by (auto simp: validValue_def split: jsnum.splits)
  have step: "maxStep (Some (Num m)) (f d) = Some (Num (max m v))"
    using v by (simp add: maxStep_def max_def)
  from Cons.prems have "\<forall>d \<in> set ds. validValue (f d)" "0 \<le> max m v"
    by simp_all
  from Cons.IH [OF this] obtain m' where m':
    "foldl (\<lambda>mx d. maxStep mx (f d)) (Some (Num (max m v))) ds = Some (Num m')"
    "max m v \<le> m'" "m' = max m v \<or> (\<exists>d \<in> set ds. f d = Num m')"
    "\<forall>d \<in> set ds. \<exists>v. f d = Num v \<and> 0 \<le> v \<and> v \<le> m'"
    by blast
  have "foldl (\<lambda>mx d. maxStep mx (f d)) (Some (Num m)) (d # ds) = Some (Num m')"
    using step m'(1) by simp
  moreover have "m \<le> m'"
    using m'(2) by simp
  moreover have "m' = m \<or> (\<exists>e \<in> set (d # ds). f e = Num m')"
    using m'(3) v(1) by (auto simp: max_def split: if_splits)
  moreover have "\<forall>e \<in> set (d # ds). \<exists>w. f e = Num w \<and> 0 \<le> w \<and> w \<le> m'"
    using m'(2,4) v by auto
  ultimately show ?case
    by blast
qed

lemma d3max_valid:
  assumes "ds \<noteq> []" and "\<forall>d \<in> set ds. validValue (f d)"
  shows "\<exists>m. d3max ds f = Some (Num m) \<and> 0 \<le> m \<and> (\<exists>d \<in> set ds. f d = Num m)
           \<and> (\<forall>d \<in> set ds. \<exists>v. f d = Num v \<and> 0 \<le> v \<and> v \<le> m)"
proof -
  from assms(1) obtain d0 rest where ds: "ds = d0 # rest"
    by (cases ds) auto
  with assms(2) obtain v0 where v0: "f d0 = Num v0" "0 \<le> v0"
    by (auto simp: validValue_def split: jsnum.splits)
  from assms(2) ds have "\<forall>d \<in> set rest. validValue (f d)"
    by simp
  from foldl_maxStep_valid [OF this v0(2)] obtain m where m:
    "foldl (\<lambda>mx d. maxStep mx (f d)) (Some (Num v0)) rest = Some (Num m)"
    "v0 \<le> m" "m = v0 \<or> (\<exists>d \<in> set rest. f d = Num m)"
    "\<forall>d \<in> set rest. \<exists>v. f d = Num v \<and> 0 \<le> v \<and> v \<le> m"
    by blast
  have "d3max ds f = Some (Num m)"
    using ds v0(1) m(1) by (simp add: d3max_def maxStep_def)
  moreover have "0 \<le> m"
    using v0(2) m(2) by simp
  moreover have "\<exists>d \<in> set ds. f d = Num m"
    using m(3) v0(1) ds by auto
  moreover have "\<forall>d \<in> set ds. \<exists>v. f d = Num v \<and> 0 \<le> v \<and> v \<le> m"
    using m(2,4) v0 ds by auto
  ultimately show ?thesis
    by blast
qed

lemma foldl_maxStep_not_NaN:
  "acc \<noteq> Some NaN \<Longrightarrow> foldl (\<lambda>mx d. maxStep mx (f d)) acc ds \<noteq> Some NaN"
proof (induction ds arbitrary: acc)
  case Nil
  then show ?case by simp
next
  case (Cons d ds)
  have "maxStep acc (f d) \<noteq> Some NaN"
    using Cons.prems by (cases acc; cases "f d") (auto simp: maxStep_def)
  from Cons.IH [OF this] show ?case
    by simp
qed

lemma d3max_not_NaN: "d3max ds f \<noteq> Some NaN"
  by (simp add: d3max_def foldl_maxStep_not_NaN)

lemma maxValue_valid:
  assumes "animalData \<noteq> []" and "\<forall>d \<in> set animalData. validValue (speed d)"
  shows "\<exists>m. maxValue animalData = Num m \<and> 0 \<le> m \<and> (\<exists>d \<in> set animalData. speed d = Num m)
           \<and> (\<forall>d \<in> set animalData. \<exists>v. speed d = Num v \<and> 0 \<le> v \<and> v \<le> m)"
  using d3max_valid [OF assms] by (auto simp: maxValue_def orElse_def)

lemma range_inverted: "marginTop \<le> chartHeight current - marginBottom"
  using chartHeight_ge [of current] by (simp add: marginTop_def marginBottom_def)

lemma value_scale_cases:
  assumes "animalData \<noteq> []" and "\<not> jless (orElse (d3max animalData speed) (Num 0)) (Num 0)"
  shows "(\<exists>M. 0 \<le> M \<and> (\<forall>v. yOf (render current animalData) (Num v) =
             Some (Num (if M = 0
                        then (chartHeight current - marginBottom) * (1 - 1 / 2) + marginTop * (1 / 2)
                        else (chartHeight current - marginBottom) * (1 - v / M) + marginTop * (v / M)))))
       \<or> (\<forall>v. yOf (render current animalData) (Num v) = Some (Num (chartHeight current - marginBottom)))"
proof -
  let ?mx = "orElse (d3max animalData speed) (Num 0)"
  have nn: "?mx \<noteq> NaN"
    using d3max_not_NaN [of animalData speed] by (cases "d3max animalData speed") (auto simp: orElse_def)
  from assms(2) nn consider m where "?mx = Num m" "0 \<le> m" | "?mx = PosInfinity"
    by (cases ?mx) auto
  then show ?thesis
  proof cases
    case 1
    from nice_from_zero [OF 1(2)] obtain M where M: "nice (Num 0, Num m) = (Num 0, Num M)" "m \<le> M"
      by blast
    with 1(2) have M0: "0 \<le> M"
      by simp
    have "yOf (render current animalData) (Num v) =
        Some (Num (if M = 0
                   then (chartHeight current - marginBottom) * (1 - 1 / 2) + marginTop * (1 / 2)
                   else (chartHeight current - marginBottom) * (1 - v / M) + marginTop * (v / M)))" for v
      by (simp only: render_obs(3) [OF assms(1)] 1(1) M(1) linearApply_finite [OF M0])
    with M0 show ?thesis
      by blast
  next
    case 2
    have "nice (Num 0, PosInfinity) = (Num 0, PosInfinity)"
      by (simp add: nice_def)
    then have "yOf (render current animalData) (Num v) = Some (Num (chartHeight current - marginBottom))" for v
      by (simp only: render_obs(3) [OF assms(1)] 2 linearApply_infinite)
    then show ?thesis
      by blast
  qed
qed

section \<open>The sample record sets, evaluated\<close>

lemma floor_log10_12: "\<lfloor>log 10 (12::real)\<rfloor> = 1"
  by (simp add: floor_log_eq_powr_iff)

lemma sqrt_gt: "(6::real) / 5 < sqrt 2"
  by (rule real_less_rsqrt) (simp add: power2_eq_square)

lemma sqrt_mono_facts: "sqrt 2 \<le> sqrt 10" "sqrt 10 \<le> sqrt 50"
  by simp_all

lemma tickIncrement_0_120: "tickIncrement 0 120 10 = Num 10"
proof -
  have "\<not> sqrt 2 \<le> (6::real) / 5" "\<not> sqrt 10 \<le> (6::real) / 5" "\<not> sqrt 50 \<le> (6::real) / 5"
    using sqrt_gt sqrt_mono_facts by linarith+
  then show ?thesis
    by (simp add: tickIncrement_def Let_def floor_log10_12)
qed

lemma niceLoop_120: "niceLoop 10 None 0 120 = Some (0, 120)"
proof -
  have "niceLoop 10 None 0 120 = niceLoop 9 (Some 10) 0 120"
    by (simp add: eval_nat_numeral tickIncrement_0_120)
  also have "\<dots> = Some (0, 120)"
    by (simp add: eval_nat_numeral tickIncrement_0_120)
  finally show ?thesis .
qed

lemma nice_0_120: "nice (Num 0, Num 120) = (Num 0, Num 120)"
  by (simp add: nice_def niceLoop_120)

lemma floor_log10_112: "\<lfloor>log 10 ((56::real) / 5)\<rfloor> = 1"
  by (simp add: floor_log_eq_powr_iff)

lemma tickIncrement_0_112: "tickIncrement 0 112 10 = Num 10"
proof -
  have "(28::real) / 25 < sqrt 2"
    by (rule real_less_rsqrt) (simp add: power2_eq_square)
  then have "\<not> sqrt 2 \<le> (28::real) / 25" "\<not> sqrt 10 \<le> (28::real) / 25" "\<not> sqrt 50 \<le> (28::real) / 25"
    using sqrt_mono_facts by linarith+
  then show ?thesis
    by (simp add: tickIncrement_def Let_def floor_log10_112)
qed

lemma nice_0_112: "nice (Num 0, Num 112) = (Num 0, Num 120)"
proof -
  have c: "\<lceil>(56::real) / 5\<rceil> = 12"
    by (simp add: ceiling_eq_iff)
  have "niceLoop 10 None 0 112 = niceLoop 9 (Some 10) 0 120"
    by (simp add: eval_nat_numeral tickIncrement_0_112 c)
  also have "\<dots> = Some (0, 120)"
    by (simp add: eval_nat_numeral tickIncrement_0_120)
  finally show ?thesis
    by (simp add: nice_def)
qed

lemma sample_valid:
  "[cheetah, elephant] \<noteq> []" "\<forall>d \<in> set [cheetah, elephant]. validValue (speed d)"
  by (simp_all add: cheetah_def elephant_def validValue_def)

lemma sample_speed: "speed cheetah = Num 120" "speed elephant = Num 25"
  by (simp_all add: cheetah_def elephant_def)

lemma sample_d3max: "d3max [cheetah, elephant] speed = Some (Num 120)"
  by (simp add: d3max_def maxStep_def cheetah_def elephant_def)

lemma sample_maxValue: "maxValue [cheetah, elephant] = Num 120"
  by (simp add: maxValue_def sample_d3max orElse_def)

lemma sample_yOf:
  "yOf (render (Some sampleContainer) [cheetah, elephant]) (Num v) =
     Some (Num (320 * (1 - v / 120) + 70 * (v / 120)))"
proof -
  have "yOf (render (Some sampleContainer) [cheetah, elephant]) (Num v) =
      linearApply \<lparr> linDomain = (Num 0, Num 120), linRange = (320, 70) \<rparr> (Num v)"
    by (simp only: render_obs(3) [OF sample_valid(1)] sample_d3max)
      (simp add: orElse_def nice_0_120 chart_sample marginBottom_def marginTop_def)
  then show ?thesis
    by (simp add: linearApply_finite)
qed

section \<open>The value scale: the claims\<close>

text \<open>
  The value scale is non-increasing as soon as the largest value is not negative
  (\<open>d3.max\<close> skips \<open>NaN\<close>, and no usable value counts as 0).
\<close>

lemma value_scale_antitone_nonneg_max:
  assumes "animalData \<noteq> []"
    and "\<not> jless (maxValue animalData) (Num 0)"
    and "v1 \<le> v2"
  shows "\<exists>y1 y2. yOf (render current animalData) (Num v1) = Some (Num y1)
           \<and> yOf (render current animalData) (Num v2) = Some (Num y2)
           \<and> y2 \<le> y1"
proof -
  from assms(2) have nonneg: "\<not> jless (orElse (d3max animalData speed) (Num 0)) (Num 0)"
    by (simp add: maxValue_def)
  from value_scale_cases [OF assms(1) nonneg, of current]
  consider M where "0 \<le> M"
      "\<And>v. yOf (render current animalData) (Num v) =
        Some (Num (if M = 0
                   then (chartHeight current - marginBottom) * (1 - 1 / 2) + marginTop * (1 / 2)
                   else (chartHeight current - marginBottom) * (1 - v / M) + marginTop * (v / M)))"
    | "\<And>v. yOf (render current animalData) (Num v) = Some (Num (chartHeight current - marginBottom))"
    by blast
  then show ?thesis
  proof cases
    case 1
    show ?thesis
    proof (cases "M = 0")
      case True
      with 1(2) show ?thesis
        by simp
    next
      case False
      with 1(1) have "0 < M"
        by simp
      from linear_antitone [OF range_inverted this assms(3), of current] 1(2) False
      show ?thesis
        by simp
    qed
  next
    case 2
    then show ?thesis
      by simp
  qed
qed

text \<open>
  C4. For a non-empty set of records whose values satisfy the data model (finite, not
  negative), the value scale maps every number to a pixel, and a larger value never
  gets a larger pixel-y: for \<open>v1 \<le> v2\<close> the outputs satisfy \<open>y(v2) \<le> y(v1)\<close>. This
  holds for all numbers, in particular for those of the scale's domain.
\<close>

theorem value_scale_antitone:
  assumes "animalData \<noteq> []"
    and "\<forall>d \<in> set animalData. validValue (speed d)"
    and "v1 \<le> v2"
  shows "\<exists>y1 y2. yOf (render current animalData) (Num v1) = Some (Num y1)
           \<and> yOf (render current animalData) (Num v2) = Some (Num y2)
           \<and> y2 \<le> y1"
proof -
  from maxValue_valid [OF assms(1,2)] obtain m where "maxValue animalData = Num m" "0 \<le> m"
    by blast
  then have "\<not> jless (maxValue animalData) (Num 0)"
    by simp
  from value_scale_antitone_nonneg_max [OF assms(1) this assms(3)] show ?thesis .
qed

text \<open>
  C4, witness: cheetah (120) and elephant (25) in a 600 by 400 chart; the domain is
  \<open>[0, 120]\<close>, so 120 is drawn at the top margin and 25 below it.
\<close>

theorem value_scale_antitone_witness:
  "[cheetah, elephant] \<noteq> []
   \<and> validValue (speed cheetah) \<and> validValue (speed elephant) \<and> (25::real) \<le> 120
   \<and> yOf (render (Some sampleContainer) [cheetah, elephant]) (Num 25) = Some (Num (3215 / 12))
   \<and> yOf (render (Some sampleContainer) [cheetah, elephant]) (Num 120) = Some (Num 70)
   \<and> (70::real) \<le> 3215 / 12"
proof -
  have le: "(25::real) \<le> 120"
    by simp
  from value_scale_antitone [OF sample_valid le, of "Some sampleContainer"]
  obtain y1 y2 where y:
    "yOf (render (Some sampleContainer) [cheetah, elephant]) (Num 25) = Some (Num y1)"
    "yOf (render (Some sampleContainer) [cheetah, elephant]) (Num 120) = Some (Num y2)"
    "y2 \<le> y1"
    by blast
  from y(1) have y1: "y1 = 3215 / 12"
    by (simp add: sample_yOf)
  from y(2) have y2: "y2 = 70"
    by (simp add: sample_yOf)
  from y y1 y2 sample_valid show ?thesis
    by simp
qed

text \<open>
  C5. For a non-empty record set and a mounted container: the value scale's domain is
  \<open>nice\<close> of \<open>[0, max]\<close>, its range is \<open>[height - bottomMargin, topMargin]\<close>,
  there is one rectangle per record, and the rectangle of record \<open>i\<close> has \<open>y\<close> equal
  to the scale's output for the record's value and height
  \<open>(height - bottomMargin) - y\<close>. When the values satisfy the data model (finite, not
  negative), the maximum \<open>m\<close> is the largest value, the niced domain is \<open>[0, M]\<close>
  with \<open>M \<ge> m\<close>, and every \<open>y\<close> lies between the top margin and the baseline, so
  that the bar extends upward from the baseline.
\<close>

theorem value_scale_and_bars:
  assumes "animalData \<noteq> []"
  shows "yDomainOf (render (Some c) animalData) = Some (nice (Num 0, maxValue animalData))
       \<and> yRangeOf (render (Some c) animalData) =
           Some (chartHeight (Some c) - marginBottom, marginTop)
       \<and> length (drawnRects (render (Some c) animalData)) = length animalData
       \<and> (\<forall>i < length animalData.
             rectY (drawnRects (render (Some c) animalData) ! i) =
               yOf (render (Some c) animalData) (speed (animalData ! i))
           \<and> rectHeight (drawnRects (render (Some c) animalData) ! i) =
               jsub (Num (chartHeight (Some c) - marginBottom))
                 (orElse (yOf (render (Some c) animalData) (speed (animalData ! i))) NaN))
       \<and> ((\<forall>d \<in> set animalData. validValue (speed d)) \<longrightarrow>
            (\<exists>m M. maxValue animalData = Num m
               \<and> (\<exists>d \<in> set animalData. speed d = Num m)
               \<and> (\<forall>d \<in> set animalData. \<exists>v. speed d = Num v \<and> v \<le> m)
               \<and> nice (Num 0, Num m) = (Num 0, Num M) \<and> m \<le> M
               \<and> (\<forall>i < length animalData. \<exists>y.
                     rectY (drawnRects (render (Some c) animalData) ! i) = Some (Num y)
                   \<and> rectHeight (drawnRects (render (Some c) animalData) ! i) =
                       Num ((chartHeight (Some c) - marginBottom) - y)
                   \<and> marginTop \<le> y \<and> y \<le> chartHeight (Some c) - marginBottom)))"
proof -
  let ?out = "render (Some c) animalData"
  let ?base = "chartHeight (Some c) - marginBottom"
  have dom: "yDomainOf ?out = Some (nice (Num 0, maxValue animalData))"
    by (simp only: render_obs(4) [OF assms] maxValue_def)
  have rng: "yRangeOf ?out = Some (?base, marginTop)"
    by (rule render_obs(5) [OF assms])
  have wiring: "\<forall>i < length animalData.
      rectY (drawnRects ?out ! i) = yOf ?out (speed (animalData ! i))
      \<and> rectHeight (drawnRects ?out ! i) =
          jsub (Num ?base) (orElse (yOf ?out (speed (animalData ! i))) NaN)"
    using drawnRects_nth(1,2) by blast
  have numbers: "\<exists>m M. maxValue animalData = Num m
      \<and> (\<exists>d \<in> set animalData. speed d = Num m)
      \<and> (\<forall>d \<in> set animalData. \<exists>v. speed d = Num v \<and> v \<le> m)
      \<and> nice (Num 0, Num m) = (Num 0, Num M) \<and> m \<le> M
      \<and> (\<forall>i < length animalData. \<exists>y.
            rectY (drawnRects ?out ! i) = Some (Num y)
          \<and> rectHeight (drawnRects ?out ! i) = Num (?base - y)
          \<and> marginTop \<le> y \<and> y \<le> ?base)"
    if valid: "\<forall>d \<in> set animalData. validValue (speed d)"
  proof -
    from maxValue_valid [OF assms valid] obtain m where m:
      "maxValue animalData = Num m" "0 \<le> m" "\<exists>d \<in> set animalData. speed d = Num m"
      "\<forall>d \<in> set animalData. \<exists>v. speed d = Num v \<and> 0 \<le> v \<and> v \<le> m"
      by blast
    from nice_from_zero [OF m(2)] obtain M where M: "nice (Num 0, Num m) = (Num 0, Num M)" "m \<le> M"
      by blast
    with m(2) have M0: "0 \<le> M"
      by simp
    have y: "yOf ?out (Num v) =
        Some (Num (if M = 0 then ?base * (1 - 1 / 2) + marginTop * (1 / 2)
                   else ?base * (1 - v / M) + marginTop * (v / M)))" for v
      using m(1) by (simp only: render_obs(3) [OF assms] maxValue_def M(1) linearApply_finite [OF M0])
    have bar: "\<exists>y. rectY (drawnRects ?out ! i) = Some (Num y)
               \<and> rectHeight (drawnRects ?out ! i) = Num (?base - y)
               \<and> marginTop \<le> y \<and> y \<le> ?base"
      if i: "i < length animalData" for i
    proof -
      from i m(4) obtain v where v: "speed (animalData ! i) = Num v" "0 \<le> v" "v \<le> m"
        using nth_mem by blast
      define yv where "yv = (if M = 0 then ?base * (1 - 1 / 2) + marginTop * (1 / 2)
                     else ?base * (1 - v / M) + marginTop * (v / M))"
      have yo: "yOf ?out (speed (animalData ! i)) = Some (Num yv)"
        using y [of v] v(1) by (simp only: yv_def)
      have "marginTop \<le> yv \<and> yv \<le> ?base"
      proof (cases "M = 0")
        case True
        then have e: "yv = ?base * (1 - 1 / 2) + marginTop * (1 / 2)"
          by (simp add: yv_def)
        show ?thesis
          unfolding e using midpoint_bounds [OF range_inverted, of "Some c"] by blast
      next
        case False
        then have e: "yv = ?base * (1 - v / M) + marginTop * (v / M)"
          by (simp add: yv_def)
        from False M0 have "0 < M"
          by simp
        moreover from v(3) M(2) have "v \<le> M"
          by simp
        ultimately show ?thesis
          unfolding e using linear_bounds [OF range_inverted, of M v "Some c"] v(2) by blast
      qed
      moreover have "rectY (drawnRects ?out ! i) = Some (Num yv)"
        by (simp only: drawnRects_nth(1) [OF i] yo)
      moreover have "rectHeight (drawnRects ?out ! i) = Num (?base - yv)"
        by (simp only: drawnRects_nth(2) [OF i] yo) (simp add: orElse_def jsub_def)
      ultimately show ?thesis
        by blast
    qed
    have "\<forall>d \<in> set animalData. \<exists>v. speed d = Num v \<and> v \<le> m"
      using m(4) by blast
    with m(1,3) M bar show ?thesis
      by blast
  qed
  from dom rng wiring numbers drawnRects_length [of c animalData] show ?thesis
    by blast
qed

text \<open>
  C5, witness: the same two records; the cheetah's bar spans the whole plot height
  (250), the elephant's 625/12.
\<close>

theorem value_scale_and_bars_witness:
  "[cheetah, elephant] \<noteq> []
   \<and> validValue (speed cheetah) \<and> validValue (speed elephant)
   \<and> yDomainOf (render (Some sampleContainer) [cheetah, elephant]) = Some (Num 0, Num 120)
   \<and> yRangeOf (render (Some sampleContainer) [cheetah, elephant]) = Some (320, 70)
   \<and> rectY (drawnRects (render (Some sampleContainer) [cheetah, elephant]) ! 0) = Some (Num 70)
   \<and> rectHeight (drawnRects (render (Some sampleContainer) [cheetah, elephant]) ! 0) = Num 250
   \<and> rectY (drawnRects (render (Some sampleContainer) [cheetah, elephant]) ! 1) =
       Some (Num (3215 / 12))
   \<and> rectHeight (drawnRects (render (Some sampleContainer) [cheetah, elephant]) ! 1) =
       Num (625 / 12)"
proof -
  let ?out = "render (Some sampleContainer) [cheetah, elephant]"
  note t = value_scale_and_bars [OF sample_valid(1), of sampleContainer]
  from t have d: "yDomainOf ?out = Some (Num 0, Num 120)"
    by (simp add: sample_maxValue nice_0_120)
  from t have r: "yRangeOf ?out = Some (320, 70)"
    by (simp add: chart_sample marginBottom_def marginTop_def)
  from t have bars: "\<forall>i < length [cheetah, elephant].
      rectY (drawnRects ?out ! i) = yOf ?out (speed ([cheetah, elephant] ! i))
      \<and> rectHeight (drawnRects ?out ! i) =
          jsub (Num (chartHeight (Some sampleContainer) - marginBottom))
            (orElse (yOf ?out (speed ([cheetah, elephant] ! i))) NaN)"
    by blast
  have "0 < length [cheetah, elephant]"
    by simp
  from bars [rule_format, OF this]
  have b0: "rectY (drawnRects ?out ! 0) = Some (Num 70)"
      "rectHeight (drawnRects ?out ! 0) = Num 250"
    by (simp_all add: sample_speed sample_yOf chart_sample marginBottom_def orElse_def jsub_def)
  have "1 < length [cheetah, elephant]"
    by simp
  from bars [rule_format, OF this]
  have b1: "rectY (drawnRects ?out ! 1) = Some (Num (3215 / 12))"
      "rectHeight (drawnRects ?out ! 1) = Num (625 / 12)"
    by (simp_all add: sample_speed sample_yOf chart_sample marginBottom_def orElse_def jsub_def)
  from d r b0 b1 sample_valid show ?thesis
    by simp
qed

section \<open>Species card: the claims\<close>

text \<open>
  C9. After the Edit button's handler has run, the second dialog is open and shows the
  edit form if and only if the species' author is the current user. For any other
  author it shows the Access Denied view, which has no form: the submit handler (the
  only caller of the update) is not among its handlers.
\<close>

theorem edit_form_only_for_author:
  "dialogTwoContent (handleEditRequest species userId st) =
     Some (if author species = userId then EditFormView else AccessDeniedView)
   \<and> ((dialogTwoContent (handleEditRequest species userId st) = Some EditFormView) =
        (author species = userId))
   \<and> (author species \<noteq> userId \<longrightarrow>
        dialogTwoContent (handleEditRequest species userId st) = Some AccessDeniedView
        \<and> OnSubmit \<notin> set (handlers AccessDeniedView))"
  by (simp add: dialogTwoContent_def handleEditRequest_def)

text \<open>
  C9, witness: a species created by \<open>user-a\<close>, edited by \<open>user-b\<close> and by \<open>user-a\<close>.
\<close>

theorem edit_form_only_for_author_witness:
  "author sampleSpecies \<noteq> ''user-b''
   \<and> dialogTwoContent (handleEditRequest sampleSpecies ''user-b'' initialCardState) =
       Some AccessDeniedView
   \<and> dialogTwoContent (handleEditRequest sampleSpecies ''user-a'' initialCardState) =
       Some EditFormView"
  using edit_form_only_for_author [of sampleSpecies "''user-b''" initialCardState]
    edit_form_only_for_author [of sampleSpecies "''user-a''" initialCardState]
  by (simp add: sampleSpecies_def)

text \<open>
  C10. When the update returns an error, \<open>onSubmit\<close> only shows the destructive
  toast: the form's values, the dialog's open flag and the number of route refreshes
  are as before. When it returns no error, the form is reset to the default values,
  the dialog is closed, the route is refreshed once and the success toast is shown. A
  refresh happens exactly when the update succeeded.
\<close>

theorem onSubmit_error_returns_early:
  "(error = Some e \<longrightarrow>
      formValues (onSubmit species input error page) = formValues page
      \<and> cardState (onSubmit species input error page) = cardState page
      \<and> refreshes (onSubmit species input error page) = refreshes page
      \<and> toasts (onSubmit species input error page) = toasts page @
          [\<lparr> toastTitle = ''Something went wrong.'', toastDescription = message e,
             toastVariant = Some ''destructive'' \<rparr>])
   \<and> (error = None \<longrightarrow>
      formValues (onSubmit species input error page) = defaultValues species
      \<and> cardState (onSubmit species input error page) = (cardState page)\<lparr> isOpenTwo := False \<rparr>
      \<and> refreshes (onSubmit species input error page) = refreshes page + 1
      \<and> toasts (onSubmit species input error page) = toasts page @
          [\<lparr> toastTitle = ''Species edited!'',
             toastDescription = ''Successfully edited '' @ scientific_name species @ ''.'',
             toastVariant = None \<rparr>])
   \<and> ((refreshes (onSubmit species input error page) \<noteq> refreshes page) = (error = None))
   \<and> updateRequests (onSubmit species input error page) =
        updateRequests page @ [(species_id species, input)]"
  by (cases error) (simp_all add: onSubmit_def)

text \<open>
  C10, witness: the same submission with an error response and with none, on an open dialog.
\<close>

theorem onSubmit_error_returns_early_witness:
  "isOpenTwo (cardState (onSubmit sampleSpecies sampleInput (Some \<lparr> message = ''denied'' \<rparr>) samplePage))
   \<and> formValues (onSubmit sampleSpecies sampleInput (Some \<lparr> message = ''denied'' \<rparr>) samplePage) =
       sampleInput
   \<and> refreshes (onSubmit sampleSpecies sampleInput (Some \<lparr> message = ''denied'' \<rparr>) samplePage) = 0
   \<and> \<not> isOpenTwo (cardState (onSubmit sampleSpecies sampleInput None samplePage))
   \<and> refreshes (onSubmit sampleSpecies sampleInput None samplePage) = 1"
  using onSubmit_error_returns_early
      [of "Some \<lparr> message = ''denied'' \<rparr>" "\<lparr> message = ''denied'' \<rparr>" sampleSpecies sampleInput samplePage]
    onSubmit_error_returns_early
      [of None "\<lparr> message = ''denied'' \<rparr>" sampleSpecies sampleInput samplePage]
  by (simp add: samplePage_def)

end
